theory Spec2Isabelle
  imports Main "HOL-Library.Sublist"
begin

section \<open>JavaScript values, strings and errors\<close>

text \<open>
  The repository is JavaScript. Strings are modelled as \<open>string\<close>: 8-bit characters,
  read as the code units U+0000 to U+00FF, so the model speaks about dumps and selectors
  within that range. Numbers that occur on the paths
  modelled here (node ids, positional indices, clock readings in milliseconds) are
  integer valued and are modelled by \<open>int\<close>; a JavaScript Number holds such a value
  exactly up to \<open>2 ^ 53\<close>, and the model does not follow the rounding beyond it.
  A \<open>throw\<close> becomes the left injection of a sum type.
\<close>

datatype js_error = TypeError | SyntaxError | RangeError | Error string

datatype jsval =
    JUndefined
  | JNull
  | JBool bool
  | JNum int
  | JStr string
  | JRegExp string "string \<Rightarrow> bool"
  | JObject string

text \<open>
  \<open>JRegExp src test\<close> is a RegExp object without the \<open>g\<close> or \<open>y\<close> flag, whose \<open>test\<close>
  keeps no position between calls: its printed form and what \<open>test\<close> answers.
  \<open>JObject str\<close> stands for any other object (array, function, plain object), given by
  what \<open>String\<close> prints for it: \<open>[object Object]\<close> for a plain object, the elements
  joined by commas for an array. The code paths below only print such a value, ask
  whether it is defined and compare it by reference.
\<close>

fun strict_eq :: "jsval \<Rightarrow> jsval \<Rightarrow> bool" where
  "strict_eq JUndefined JUndefined = True"
| "strict_eq JNull JNull = True"
| "strict_eq (JBool a) (JBool b) = (a = b)"
| "strict_eq (JNum a) (JNum b) = (a = b)"
| "strict_eq (JStr a) (JStr b) = (a = b)"
| "strict_eq _ _ = False"

fun is_undefined :: "jsval \<Rightarrow> bool" where
  "is_undefined JUndefined = True"
| "is_undefined _ = False"

fun truthy :: "jsval \<Rightarrow> bool" where
  "truthy JUndefined = False"
| "truthy JNull = False"
| "truthy (JBool b) = b"
| "truthy (JNum n) = (n \<noteq> 0)"
| "truthy (JStr s) = (s \<noteq> [])"
| "truthy (JRegExp _ _) = True"
| "truthy (JObject _) = True"

definition digit_char :: "nat \<Rightarrow> char" where
  "digit_char d = char_of (48 + d)"

fun digits_of_nat :: "nat \<Rightarrow> string" where
  "digits_of_nat n = (if n < 10 then [digit_char n] else digits_of_nat (n div 10) @ [digit_char (n mod 10)])"

declare digits_of_nat.simps [simp del]

definition String_int :: "int \<Rightarrow> string" where
  "String_int i = (if i < 0 then CHR ''-'' # digits_of_nat (nat (- i)) else digits_of_nat (nat i))"

fun String_js :: "jsval \<Rightarrow> string" where
  "String_js JUndefined = ''undefined''"
| "String_js JNull = ''null''"
| "String_js (JBool b) = (if b then ''true'' else ''false'')"
| "String_js (JNum n) = String_int n"
| "String_js (JStr s) = s"
| "String_js (JRegExp src _) = src"
| "String_js (JObject str) = str"

abbreviation Boolean_js :: "jsval \<Rightarrow> bool" where
  "Boolean_js \<equiv> truthy"

definition is_digit :: "char \<Rightarrow> bool" where
  "is_digit c = (48 \<le> (of_char c :: nat) \<and> (of_char c :: nat) \<le> 57)"

definition digit_val :: "char \<Rightarrow> nat" where
  "digit_val c = (of_char c :: nat) - 48"

definition Number_digits :: "string \<Rightarrow> nat" where
  "Number_digits s = foldl (\<lambda>acc c. 10 * acc + digit_val c) 0 s"

definition lower_char :: "char \<Rightarrow> char" where
  "lower_char c =
     (if (65 \<le> (of_char c :: nat) \<and> (of_char c :: nat) \<le> 90) \<or>
         (192 \<le> (of_char c :: nat) \<and> (of_char c :: nat) \<le> 222 \<and> (of_char c :: nat) \<noteq> 215)
      then char_of ((of_char c :: nat) + 32) else c)"

definition toLowerCase :: "string \<Rightarrow> string" where
  "toLowerCase s = map lower_char s"

fun str_includes :: "string \<Rightarrow> string \<Rightarrow> bool" where
  "str_includes [] sub = (sub = [])"
| "str_includes (c # s) sub = (prefix sub (c # s) \<or> str_includes s sub)"

definition startsWith :: "string \<Rightarrow> string \<Rightarrow> bool" where
  "startsWith s p = prefix p s"

definition endsWith :: "string \<Rightarrow> string \<Rightarrow> bool" where
  "endsWith s p = suffix p s"

definition is_space :: "char \<Rightarrow> bool" where
  "is_space c = ((of_char c :: nat) \<in> {9, 10, 11, 12, 13, 32, 160})"

definition trim :: "string \<Rightarrow> string" where
  "trim s = rev (dropWhile is_space (rev (dropWhile is_space s)))"

section \<open>Regular expressions\<close>

text \<open>
  The regular expressions of the source are written in a small syntax tree and run by a
  backtracking matcher that lists the ways to match in the priority order of the
  JavaScript engine (greedy quantifiers try the longest repetition first, the left
  alternative comes first); the head of the list is the match JavaScript reports.
  A character class is a list of inclusive ranges, possibly negated. Every quantifier of
  the source applies to a single character class, so that is the only repetition here.
\<close>

datatype rx =
    Lit string
  | Cls bool "(char \<times> char) list"
  | Rep bool "(char \<times> char) list" nat "nat option"
  | Seq rx rx
  | Alt rx rx
  | Grp rx
  | NotAhead rx
  | Bol
  | Eol

definition in_class :: "bool \<Rightarrow> (char \<times> char) list \<Rightarrow> char \<Rightarrow> bool" where
  "in_class neg rs c =
     (list_ex (\<lambda>(lo, hi). (of_char lo :: nat) \<le> of_char c \<and> (of_char c :: nat) \<le> of_char hi) rs \<noteq> neg)"

text \<open>A matcher state: the position reached, the rest of the input, the captures so far.\<close>

type_synonym rx_state = "nat \<times> string \<times> string list"

fun rx_m :: "rx \<Rightarrow> rx_state \<Rightarrow> rx_state list" where
  "rx_m (Lit l) (i, s, caps) = (if prefix l s then [(i + length l, drop (length l) s, caps)] else [])"
| "rx_m (Cls neg rs) (i, s, caps) =
     (case s of [] \<Rightarrow> [] | c # t \<Rightarrow> if in_class neg rs c then [(i + 1, t, caps)] else [])"
| "rx_m (Rep neg rs lo hi) (i, s, caps) =
     (let run = length (takeWhile (in_class neg rs) s);
          top = (case hi of None \<Rightarrow> run | Some h \<Rightarrow> min h run)
      in map (\<lambda>k. (i + k, drop k s, caps)) (rev [lo..<Suc top]))"
| "rx_m (Seq a b) st = concat (map (rx_m b) (rx_m a st))"
| "rx_m (Alt a b) st = rx_m a st @ rx_m b st"
| "rx_m (Grp r) (i, s, caps) =
     map (\<lambda>(j, t, caps'). (j, t, caps' @ [take (j - i) s])) (rx_m r (i, s, caps))"
| "rx_m (NotAhead r) st = (if rx_m r st = [] then [st] else [])"
| "rx_m Bol (i, s, caps) = (if i = 0 then [(i, s, caps)] else [])"
| "rx_m Eol (i, s, caps) = (if s = [] then [(i, s, caps)] else [])"

text \<open>
  \<open>rx_at r i s\<close>: the preferred match of \<open>r\<close> starting at position \<open>i\<close>, where \<open>s\<close> is
  the input from \<open>i\<close> on, as (end position, captures).
\<close>

definition rx_at :: "rx \<Rightarrow> nat \<Rightarrow> string \<Rightarrow> (nat \<times> string list) option" where
  "rx_at r i s = (case rx_m r (i, s, []) of [] \<Rightarrow> None | (j, _, caps) # _ \<Rightarrow> Some (j, caps))"

text \<open>
  \<open>rx_search\<close> is the unanchored search of \<open>String.prototype.match\<close> and
  \<open>RegExp.prototype.test\<close> without the \<open>g\<close> flag: the leftmost start position with a
  match wins. The result is (index, end position, captures).
\<close>

fun rx_search_from :: "rx \<Rightarrow> nat \<Rightarrow> string \<Rightarrow> (nat \<times> nat \<times> string list) option" where
  "rx_search_from r i [] = (case rx_at r i [] of None \<Rightarrow> None | Some (j, caps) \<Rightarrow> Some (i, j, caps))"
| "rx_search_from r i (c # t) =
     (case rx_at r i (c # t) of
        None \<Rightarrow> rx_search_from r (Suc i) t
      | Some (j, caps) \<Rightarrow> Some (i, j, caps))"

definition match_rx :: "string \<Rightarrow> rx \<Rightarrow> (nat \<times> nat \<times> string list) option" where
  "match_rx s r = rx_search_from r 0 s"

definition test_rx :: "rx \<Rightarrow> string \<Rightarrow> bool" where
  "test_rx r s = (match_rx s r \<noteq> None)"

text \<open>
  \<open>replace\<close> with a \<open>g\<close>-flagged pattern: scan from the left, replace each match and go
  on behind it; after an empty match the scan copies one character and goes on.
\<close>

function replace_all_from :: "rx \<Rightarrow> string \<Rightarrow> nat \<Rightarrow> string \<Rightarrow> string" where
  "replace_all_from r rep i [] = (case rx_at r i [] of None \<Rightarrow> [] | Some _ \<Rightarrow> rep)"
| "replace_all_from r rep i (c # t) =
     (case rx_at r i (c # t) of
        None \<Rightarrow> c # replace_all_from r rep (Suc i) t
      | Some (j, _) \<Rightarrow>
          (if i < j then rep @ replace_all_from r rep j (drop (j - i) (c # t))
           else rep @ c # replace_all_from r rep (Suc i) t))"
  by pat_completeness auto
termination
  by (relation "measure (\<lambda>(r, rep, i, s). length s)") auto

definition replace_all :: "string \<Rightarrow> rx \<Rightarrow> string \<Rightarrow> string" where
  "replace_all s r rep = replace_all_from r rep 0 s"

text \<open>\<open>replace\<close> with a pattern without the \<open>g\<close> flag replaces the first match only.\<close>

definition replace_first :: "string \<Rightarrow> rx \<Rightarrow> string \<Rightarrow> string" where
  "replace_first s r rep =
     (case match_rx s r of
        None \<Rightarrow> s
      | Some (i, j, _) \<Rightarrow> take i s @ rep @ drop j s)"

fun seqs :: "rx list \<Rightarrow> rx" where
  "seqs [] = Lit []"
| "seqs [r] = r"
| "seqs (r # rs) = Seq r (seqs rs)"

definition dq :: char where "dq = CHR 0x22"
definition sq :: char where "sq = CHR 0x27"

definition digit_cls :: "(char \<times> char) list" where
  "digit_cls = [(CHR ''0'', CHR ''9'')]"

definition quote_cls :: "(char \<times> char) list" where
  "quote_cls = [(dq, dq), (sq, sq)]"

section \<open>The snapshot parser (utils/xml-parser.js)\<close>

text \<open>
  \<open>xml2js\<close> is an external library. Its result for the options the source passes is
  modelled as the element tree of the document: the object of an element carries its
  attributes under \<open>$\<close> and, for every tag name, the array of the child elements of
  that name in document order. The parser itself is a parameter of \<open>parseUIHierarchy\<close>:
  it answers an error message or a result, which may be null.
\<close>

datatype xml_elem = Elem (xname: string) (xattrs: "(string \<times> string) list") (xkids: "xml_elem list")

type_synonym xml_parser = "string \<Rightarrow> string + xml_elem option"

record bounds_rect =
  x1 :: int
  y1 :: int
  x2 :: int
  y2 :: int
  centerX :: int
  centerY :: int
  width :: int
  height :: int

text \<open>
  A node object: the numeric \<open>id\<close>, the string-valued properties in the order the source
  writes them, the copy of the original attributes, the parsed bounds, the generated
  selector and the children. The fallback node of a failed parse has no \<open>attributes\<close>,
  \<open>boundsRect\<close> or \<open>selector\<close>.
\<close>

datatype ui_node = Node (nid: int) (props: "(string \<times> string) list")
  (attributes: "(string \<times> string) list option") (boundsRect: "bounds_rect option")
  (selector: "string option") (children: "ui_node list")

definition node_prop :: "ui_node \<Rightarrow> string \<Rightarrow> string option" where
  "node_prop n k = map_of (props n) k"

definition xml_start_rx :: rx where
  "xml_start_rx = Alt (Lit ''<?xml'') (Lit ''<hierarchy'')"

definition nul_rx :: rx where
  "nul_rx = Cls False [(CHR 0x00, CHR 0x00)]"

definition control_rx :: rx where
  "control_rx = Cls False [(CHR 0x00, CHR 0x08), (CHR 0x0B, CHR 0x0B), (CHR 0x0C, CHR 0x0C),
                           (CHR 0x0E, CHR 0x1F), (CHR 0x7F, CHR 0x7F)]"

definition bare_amp_rx :: rx where
  "bare_amp_rx = Seq (Lit ''&'')
     (NotAhead (Seq (Rep False [(CHR ''a'', CHR ''z''), (CHR ''A'', CHR ''Z''), (CHR ''0'', CHR ''9''),
                                 (CHR ''#'', CHR ''#'')] 1 (Some 8)) (Lit '';'')))"

definition hierarchy_start_rx :: rx where
  "hierarchy_start_rx = Seq Bol (Lit ''<hierarchy'')"

definition xml_declaration :: string where
  "xml_declaration = ''<?xml version='' @ [dq] @ ''1.0'' @ [dq] @ '' encoding='' @ [dq] @ ''UTF-8'' @ [dq] @ ''?>''"

definition cleanXMLString :: "jsval \<Rightarrow> js_error + string" where
  "cleanXMLString xmlString =
     (case xmlString of
        JStr s \<Rightarrow>
          if s = [] then Inl (Error ''Invalid XML string provided'')
          else
            let cleaned = trim s;
                cleaned = (case match_rx cleaned xml_start_rx of
                             Some (index, _, _) \<Rightarrow> drop index cleaned
                           | None \<Rightarrow> cleaned);
                cleaned = replace_all cleaned nul_rx [];
                cleaned = replace_all cleaned control_rx [];
                cleaned = replace_all cleaned bare_amp_rx ''&amp;'';
                cleaned = replace_first cleaned hierarchy_start_rx (xml_declaration @ ''<hierarchy'')
            in Inr cleaned
      | _ \<Rightarrow> Inl (Error ''Invalid XML string provided''))"

definition attr_or :: "(string \<times> string) list \<Rightarrow> string \<Rightarrow> string \<Rightarrow> string" where
  "attr_or attrs k d = (case map_of attrs k of None \<Rightarrow> d | Some v \<Rightarrow> if v = [] then d else v)"

definition bounds_rx :: rx where
  "bounds_rx = seqs [Lit ''['', Grp (Rep False digit_cls 1 None), Lit '','', Grp (Rep False digit_cls 1 None),
                     Lit '']['', Grp (Rep False digit_cls 1 None), Lit '','', Grp (Rep False digit_cls 1 None),
                     Lit '']'']"

definition parseBounds :: "string \<Rightarrow> bounds_rect option" where
  "parseBounds bounds =
     (case match_rx bounds bounds_rx of
        Some (_, _, [a, b, c, d]) \<Rightarrow>
          let xa = int (Number_digits a); ya = int (Number_digits b);
              xb = int (Number_digits c); yb = int (Number_digits d)
          in Some \<lparr>x1 = xa, y1 = ya, x2 = xb, y2 = yb,
                    centerX = (xa + xb) div 2, centerY = (ya + yb) div 2,
                    width = xb - xa, height = yb - ya\<rparr>
      | _ \<Rightarrow> None)"

definition escape_quotes :: "string \<Rightarrow> string" where
  "escape_quotes s = replace_all s (Lit [dq]) ([CHR 0x5C, dq])"

definition generateSelector :: "(string \<times> string) list \<Rightarrow> string" where
  "generateSelector ps =
     (let get = (\<lambda>k. case map_of ps k of None \<Rightarrow> [] | Some v \<Rightarrow> v);
          selector = get ''class'';
          selector =
            (if get ''resource-id'' \<noteq> [] then
               selector @ ''[@resource-id='' @ [dq] @ get ''resource-id'' @ [dq] @ '']''
             else if get ''text'' \<noteq> [] then
               selector @ ''[@text='' @ [dq] @ escape_quotes (get ''text'') @ [dq] @ '']''
             else if get ''content-desc'' \<noteq> [] then
               selector @ ''[@content-desc='' @ [dq] @ escape_quotes (get ''content-desc'') @ [dq] @ '']''
             else selector)
      in if get ''index'' \<noteq> [] \<and> get ''index'' \<noteq> ''0''
         then selector @ ''['' @ get ''index'' @ '']'' else selector)"

definition node_props :: "(string \<times> string) list \<Rightarrow> (string \<times> string) list" where
  "node_props attrs =
     [(''tag'', ''node''),
      (''class'', attr_or attrs ''class'' ''android.view.View''),
      (''resource-id'', attr_or attrs ''resource-id'' []),
      (''text'', attr_or attrs ''text'' []),
      (''content-desc'', attr_or attrs ''content-desc'' []),
      (''bounds'', attr_or attrs ''bounds'' ''[0,0][0,0]''),
      (''index'', attr_or attrs ''index'' ''0''),
      (''package'', attr_or attrs ''package'' []),
      (''clickable'', attr_or attrs ''clickable'' ''false''),
      (''long-clickable'', attr_or attrs ''long-clickable'' ''false''),
      (''enabled'', attr_or attrs ''enabled'' ''true''),
      (''selected'', attr_or attrs ''selected'' ''false''),
      (''focused'', attr_or attrs ''focused'' ''false''),
      (''focusable'', attr_or attrs ''focusable'' ''false''),
      (''scrollable'', attr_or attrs ''scrollable'' ''false''),
      (''checkable'', attr_or attrs ''checkable'' ''false''),
      (''checked'', attr_or attrs ''checked'' ''false''),
      (''password'', attr_or attrs ''password'' ''false''),
      (''visible-to-user'', attr_or attrs ''visible-to-user'' ''true'')]"

text \<open>
  \<open>processNode\<close> builds the node of one element and numbers its children from
  \<open>id * 1000 + 1\<close>. \<open>processChildren\<close> is its loop over \<open>node.node\<close>, the child elements
  whose tag is \<open>node\<close>; \<open>childId\<close> advances with every child processed. This is the
  recursion as it runs when the stack holds it; the overflow of the stack on a deep tree
  is part of \<open>parseUIHierarchy_try\<close> below. The ids are exact integers: those of the source
  round once they pass \<open>2 ^ 53\<close>, and nothing is stated about ids there.
\<close>

fun processNode :: "xml_elem \<Rightarrow> int \<Rightarrow> ui_node"
  and processChildren :: "xml_elem list \<Rightarrow> int \<Rightarrow> ui_node list" where
  "processNode (Elem name attrs kids) ident =
     (let ps = node_props attrs
      in Node ident ps (Some attrs)
           (parseBounds (case map_of ps ''bounds'' of None \<Rightarrow> [] | Some b \<Rightarrow> b))
           (Some (generateSelector ps))
           (processChildren kids (ident * 1000 + 1)))"
| "processChildren [] childId = []"
| "processChildren (child # rest) childId =
     (if xname child = ''node''
      then processNode child childId # processChildren rest (childId + 1)
      else processChildren rest childId)"

definition fallback_node :: ui_node where
  "fallback_node = Node 0
     [(''tag'', ''hierarchy''),
      (''class'', ''android.widget.FrameLayout''),
      (''resource-id'', []),
      (''text'', ''UI Parsing Failed - Please refresh''),
      (''content-desc'', ''UI hierarchy could not be parsed''),
      (''bounds'', ''[0,0][1080,1920]''),
      (''clickable'', ''false''),
      (''enabled'', ''true'')]
     None None None []"

text \<open>
  The body of the \<open>try\<close> block: what follows the parse is \<open>tree_of_result\<close>, which throws
  when \<open>result.hierarchy\<close> or \<open>result.hierarchy.node\<close> is missing and otherwise processes
  the first \<open>node\<close> child of the root with id \<open>0\<close>.
\<close>

definition node_kids :: "xml_elem \<Rightarrow> xml_elem list" where
  "node_kids e = filter (\<lambda>k. xname k = ''node'') (xkids e)"

definition tree_of_result :: "xml_elem option \<Rightarrow> js_error + ui_node" where
  "tree_of_result result =
     (case result of
        None \<Rightarrow> Inl (Error ''Invalid XML structure: missing hierarchy or node'')
      | Some root \<Rightarrow>
          (if xname root \<noteq> ''hierarchy'' then Inl (Error ''Invalid XML structure: missing hierarchy or node'')
           else case node_kids root of
                  [] \<Rightarrow> Inl (Error ''Invalid XML structure: missing hierarchy or node'')
                | rootNode # _ \<Rightarrow> Inr (processNode rootNode 0)))"

text \<open>
  \<open>processNode\<close> calls itself once for every level of nesting, so a tree of depth \<open>n\<close>
  needs \<open>n\<close> nested calls. \<open>stack\<close> is the number of nested calls of \<open>processNode\<close> that
  the stack of the engine holds; on a deeper tree the call throws a RangeError inside the
  \<open>try\<close> block.
\<close>

fun node_depth :: "ui_node \<Rightarrow> nat" where
  "node_depth (Node i ps at br sel cs) = Suc (foldr max (map node_depth cs) 0)"

definition parseUIHierarchy_try :: "nat \<Rightarrow> xml_parser \<Rightarrow> jsval \<Rightarrow> js_error + ui_node" where
  "parseUIHierarchy_try stack xml2js xmlString =
     (case cleanXMLString xmlString of
        Inl e \<Rightarrow> Inl e
      | Inr cleanedXml \<Rightarrow>
          (case xml2js cleanedXml of
             Inl msg \<Rightarrow> Inl (Error (''XML parsing failed: '' @ msg))
           | Inr result \<Rightarrow>
               (case tree_of_result result of
                  Inl e \<Rightarrow> Inl e
                | Inr node \<Rightarrow> if node_depth node \<le> stack then Inr node else Inl RangeError)))"

text \<open>
  The \<open>catch\<close> block logs \<open>xmlString.substring(0, 200)\<close> before it returns the fallback
  node; on an input without that method (anything but a string here) the handler itself
  throws a TypeError.
\<close>

definition parseUIHierarchy :: "nat \<Rightarrow> xml_parser \<Rightarrow> jsval \<Rightarrow> js_error + ui_node" where
  "parseUIHierarchy stack xml2js xmlString =
     (case parseUIHierarchy_try stack xml2js xmlString of
        Inr node \<Rightarrow> Inr node
      | Inl error \<Rightarrow> (case xmlString of JStr s \<Rightarrow> Inr fallback_node | _ \<Rightarrow> Inl TypeError))"

fun preorder :: "ui_node \<Rightarrow> ui_node list" where
  "preorder (Node i ps at br sel cs) = Node i ps at br sel cs # concat (map preorder cs)"

subsection \<open>Dumps and what a parsed tree is compared with\<close>

text \<open>
  A well-formed dump is a \<open>hierarchy\<close> root with one child, all of whose descendants are
  \<open>node\<close> elements without repeated attributes. Its elements are listed in document
  order by \<open>xml_preorder\<close>.
\<close>

fun xml_preorder :: "xml_elem \<Rightarrow> xml_elem list" where
  "xml_preorder (Elem name attrs kids) = Elem name attrs kids # concat (map xml_preorder kids)"

text \<open>The depth of nesting of an element: one for an element without children.\<close>

fun xml_depth :: "xml_elem \<Rightarrow> nat" where
  "xml_depth (Elem name attrs kids) = Suc (foldr max (map xml_depth kids) 0)"

fun all_node_elems :: "xml_elem \<Rightarrow> bool" where
  "all_node_elems (Elem name attrs kids) =
     (name = ''node'' \<and> distinct (map fst attrs) \<and> list_all all_node_elems kids)"

definition wellformed_dump :: "xml_elem \<Rightarrow> bool" where
  "wellformed_dump d =
     (xname d = ''hierarchy'' \<and> (case xkids d of [r] \<Rightarrow> all_node_elems r | _ \<Rightarrow> False))"

text \<open>
  The attribute fields of a node and their defaults: \<open>enabled\<close> and \<open>visible-to-user\<close>
  default to \<open>true\<close>, the other flags to \<open>false\<close>.
\<close>

definition attribute_defaults :: "(string \<times> string) list" where
  "attribute_defaults =
     [(''class'', ''android.view.View''), (''resource-id'', []), (''text'', []),
      (''content-desc'', []), (''bounds'', ''[0,0][0,0]''), (''index'', ''0''),
      (''package'', []),
      (''clickable'', ''false''), (''long-clickable'', ''false''), (''enabled'', ''true''),
      (''selected'', ''false''), (''focused'', ''false''), (''focusable'', ''false''),
      (''scrollable'', ''false''), (''checkable'', ''false''), (''checked'', ''false''),
      (''password'', ''false''), (''visible-to-user'', ''true'')]"

text \<open>
  \<open>fields_verbatim\<close>: every field is the attribute of the element as written, or the
  default when the element has no such attribute. \<open>fields_nonempty_verbatim\<close>: the same,
  except that an attribute written with the empty string counts as absent.
\<close>

definition fields_verbatim :: "xml_elem \<Rightarrow> ui_node \<Rightarrow> bool" where
  "fields_verbatim e n =
     list_all (\<lambda>(k, d). node_prop n k = Some (case map_of (xattrs e) k of None \<Rightarrow> d | Some v \<Rightarrow> v))
       attribute_defaults"

definition fields_nonempty_verbatim :: "xml_elem \<Rightarrow> ui_node \<Rightarrow> bool" where
  "fields_nonempty_verbatim e n =
     list_all (\<lambda>(k, d). node_prop n k =
                 Some (case map_of (xattrs e) k of None \<Rightarrow> d | Some v \<Rightarrow> if v = [] then d else v))
       attribute_defaults"

text \<open>A parser that knows one document, for running the parse on a concrete dump.\<close>

definition stub_parser :: "string \<Rightarrow> xml_elem \<Rightarrow> xml_parser" where
  "stub_parser doc d x = (if x = doc then Inr (Some d) else Inl ''Unexpected input'')"

definition empty_class_text :: string where
  "empty_class_text = ''<hierarchy><node class='' @ [dq, dq] @ ''/></hierarchy>''"

definition empty_class_node :: xml_elem where
  "empty_class_node = Elem ''node'' [(''class'', [])] []"

definition empty_class_dump :: xml_elem where
  "empty_class_dump = Elem ''hierarchy'' [] [empty_class_node]"

definition leaf_elem :: xml_elem where
  "leaf_elem = Elem ''node'' [] []"

definition wide_dump :: xml_elem where
  "wide_dump = Elem ''hierarchy'' []
     [Elem ''node'' [] (Elem ''node'' [] [leaf_elem] # replicate 1000 leaf_elem)]"

definition sample_text :: string where
  "sample_text = ''<hierarchy><node text='' @ [dq] @ ''OK'' @ [dq] @ ''><node/></node></hierarchy>''"

definition sample_root :: xml_elem where
  "sample_root = Elem ''node'' [(''text'', ''OK'')] [Elem ''node'' [] []]"

definition sample_dump :: xml_elem where
  "sample_dump = Elem ''hierarchy'' [] [sample_root]"

section \<open>The query engine (Selector.js)\<close>

text \<open>
  A selector is a string, an object given by its entries in enumeration order, null, or
  a value of another type. The constructor \<open>RegExp\<close>, which \<open>textMatches\<close> calls on the
  selector's value, belongs to the language and is a parameter: it answers a SyntaxError
  or the \<open>test\<close> function of the pattern.
\<close>

datatype selector = SString string | SObject "(string \<times> jsval) list" | SNull | SOther

type_synonym regexp_ctor = "jsval \<Rightarrow> js_error + (string \<Rightarrow> bool)"

definition opt_js :: "string option \<Rightarrow> jsval" where
  "opt_js v = (case v of None \<Rightarrow> JUndefined | Some s \<Rightarrow> JStr s)"

definition or_empty :: "string option \<Rightarrow> string" where
  "or_empty v = (case v of None \<Rightarrow> [] | Some s \<Rightarrow> s)"

definition object_prototype_keys :: "string list" where
  "object_prototype_keys =
     [''constructor'', ''hasOwnProperty'', ''isPrototypeOf'', ''propertyIsEnumerable'',
      ''toLocaleString'', ''toString'', ''valueOf'', ''__proto__'', ''__defineGetter__'',
      ''__defineSetter__'', ''__lookupGetter__'', ''__lookupSetter__'']"

text \<open>
  \<open>node_get n k\<close> is the dynamic read \<open>node[k]\<close>: the own properties of the node object,
  then what every object inherits.
\<close>

definition plain_object :: jsval where
  "plain_object = JObject ''[object Object]''"

fun join_commas :: "string list \<Rightarrow> string" where
  "join_commas [] = []"
| "join_commas [x] = x"
| "join_commas (x # xs) = x @ '','' @ join_commas xs"

definition inherited :: "string \<Rightarrow> jsval" where
  "inherited k =
     (if k = ''__proto__'' then plain_object
      else if k \<in> set object_prototype_keys then JObject (''function '' @ k @ ''() { [native code] }'')
      else JUndefined)"

definition node_get :: "ui_node \<Rightarrow> string \<Rightarrow> jsval" where
  "node_get n k =
     (if k = ''id'' then JNum (nid n)
      else if k = ''children'' then JObject (join_commas (map (\<lambda>c. ''[object Object]'') (children n)))
      else if k = ''attributes'' then (case attributes n of None \<Rightarrow> JUndefined | Some _ \<Rightarrow> plain_object)
      else if k = ''boundsRect'' then (case boundsRect n of None \<Rightarrow> JUndefined | Some _ \<Rightarrow> plain_object)
      else if k = ''selector'' then opt_js (selector n)
      else case map_of (props n) k of
             Some v \<Rightarrow> JStr v
           | None \<Rightarrow> inherited k)"

definition attr_eq_rx :: rx where
  "attr_eq_rx = seqs [Lit ''['', Grp (Rep True [(CHR ''='', CHR ''='')] 1 None), Lit ''='',
                      Rep False quote_cls 0 (Some 1),
                      Grp (Rep True [(dq, dq), (sq, sq), (CHR '']'', CHR '']'')] 1 None),
                      Rep False quote_cls 0 (Some 1), Lit '']'']"

definition attr_contains_rx :: rx where
  "attr_contains_rx = seqs [Lit ''['', Grp (Rep True [(CHR ''*'', CHR ''*'')] 1 None), Lit ''*='',
                      Rep False quote_cls 0 (Some 1),
                      Grp (Rep True [(dq, dq), (sq, sq), (CHR '']'', CHR '']'')] 1 None),
                      Rep False quote_cls 0 (Some 1), Lit '']'']"

definition attr_exists_rx :: rx where
  "attr_exists_rx = seqs [Lit ''['', Grp (Rep True [(CHR ''='', CHR ''=''), (CHR '']'', CHR '']'')] 1 None),
                      Lit '']'']"

text \<open>
  The result of a matcher is its truthiness. In \<open>matchStringSelector\<close> the three attribute
  patterns are tried in the order of the source; the first that matches returns.
  \<open>node[attr].includes(value)\<close> needs a string or the array of children.
\<close>

definition matchStringSelector :: "ui_node \<Rightarrow> string \<Rightarrow> js_error + bool" where
  "matchStringSelector node sel =
     (if startsWith sel ''#'' then
        (let ident = drop 1 sel
         in Inr (node_prop node ''resource-id'' = Some ident \<or>
                 (case node_prop node ''resource-id'' of
                    None \<Rightarrow> False
                  | Some r \<Rightarrow> endsWith r ('':id/'' @ ident))))
      else if startsWith sel ''.'' then
        (let className = drop 1 sel
         in Inr (case node_prop node ''class'' of
                   None \<Rightarrow> False
                 | Some c \<Rightarrow> c \<noteq> [] \<and> str_includes c className))
      else
        (let tail = (if str_includes sel ''.'' then Inr (node_prop node ''class'' = Some sel)
                     else Inr (node_prop node ''text'' = Some sel \<or>
                               node_prop node ''content-desc'' = Some sel))
         in if startsWith sel ''['' \<and> endsWith sel '']'' then
              (case match_rx sel attr_eq_rx of
                 Some (_, _, [attr, val]) \<Rightarrow> Inr (strict_eq (node_get node attr) (JStr val))
               | _ \<Rightarrow>
                 (case match_rx sel attr_contains_rx of
                    Some (_, _, [attr, val]) \<Rightarrow>
                      (if \<not> truthy (node_get node attr) then Inr False
                       else case node_get node attr of
                              JStr s \<Rightarrow> Inr (str_includes s val)
                            | JObject _ \<Rightarrow> if attr = ''children'' then Inr False else Inl TypeError
                            | _ \<Rightarrow> Inl TypeError)
                  | _ \<Rightarrow>
                    (case match_rx sel attr_exists_rx of
                       Some (_, _, [attr]) \<Rightarrow> Inr (\<not> is_undefined (node_get node attr))
                     | _ \<Rightarrow> tail)))
            else tail))"

definition flag_keys :: "string list" where
  "flag_keys = [''clickable'', ''enabled'', ''selected'', ''checked'', ''scrollable'',
                ''focusable'', ''focused'']"

text \<open>
  One turn of the loop of \<open>_matchObjectSelector\<close>: \<open>Inr False\<close> is the \<open>return false\<close> of
  the case, \<open>Inr True\<close> its \<open>break\<close>.
\<close>

definition matchObjectEntry :: "regexp_ctor \<Rightarrow> ui_node \<Rightarrow> string \<Rightarrow> jsval \<Rightarrow> js_error + bool" where
  "matchObjectEntry RegExp_new node key val =
     (if key = ''text'' then
        (case val of
           JRegExp _ test \<Rightarrow> Inr (test (or_empty (node_prop node ''text'')))
         | _ \<Rightarrow> Inr (strict_eq (opt_js (node_prop node ''text'')) val))
      else if key = ''textContains'' \<or> key = ''contains'' then
        (case val of
           JStr v \<Rightarrow>
             (let searchText = toLowerCase v;
                  nodeText = toLowerCase (or_empty (node_prop node ''text''));
                  nodeDesc = toLowerCase (or_empty (node_prop node ''content-desc''))
              in Inr (str_includes nodeText searchText \<or> str_includes nodeDesc searchText))
         | _ \<Rightarrow> Inl TypeError)
      else if key = ''textMatches'' then
        (case RegExp_new val of
           Inl e \<Rightarrow> Inl e
         | Inr test \<Rightarrow> Inr (test (or_empty (node_prop node ''text'')) \<or>
                            test (or_empty (node_prop node ''content-desc''))))
      else if key = ''resourceId'' \<or> key = ''id'' then
        (case val of
           JStr v \<Rightarrow> Inr (node_prop node ''resource-id'' = Some v \<or>
                          (case node_prop node ''resource-id'' of
                             None \<Rightarrow> False
                           | Some r \<Rightarrow> endsWith r ('':id/'' @ v)))
         | JRegExp _ test \<Rightarrow> Inr (test (or_empty (node_prop node ''resource-id'')))
         | _ \<Rightarrow> Inr True)
      else if key = ''className'' \<or> key = ''class'' then
        (case val of
           JRegExp _ test \<Rightarrow> Inr (test (or_empty (node_prop node ''class'')))
         | _ \<Rightarrow> Inr (strict_eq (opt_js (node_prop node ''class'')) val))
      else if key = ''contentDesc'' \<or> key = ''description'' then
        (case val of
           JRegExp _ test \<Rightarrow> Inr (test (or_empty (node_prop node ''content-desc'')))
         | _ \<Rightarrow> Inr (strict_eq (opt_js (node_prop node ''content-desc'')) val))
      else if key \<in> set flag_keys \<or> key = ''index'' then
        Inr (node_prop node key = Some (String_js val))
      else if key = ''bounds'' \<or> key = ''package'' then
        Inr (strict_eq (opt_js (node_prop node key)) val)
      else Inr (strict_eq (node_get node key) val))"

fun matchObjectSelector :: "regexp_ctor \<Rightarrow> ui_node \<Rightarrow> (string \<times> jsval) list \<Rightarrow> js_error + bool" where
  "matchObjectSelector RegExp_new node [] = Inr True"
| "matchObjectSelector RegExp_new node ((key, val) # rest) =
     (case matchObjectEntry RegExp_new node key val of
        Inl e \<Rightarrow> Inl e
      | Inr False \<Rightarrow> Inr False
      | Inr True \<Rightarrow> matchObjectSelector RegExp_new node rest)"

text \<open>\<open>Object.entries(null)\<close> throws a TypeError.\<close>

fun matchesSelector :: "regexp_ctor \<Rightarrow> ui_node \<Rightarrow> selector \<Rightarrow> js_error + bool" where
  "matchesSelector RegExp_new node (SString s) = matchStringSelector node s"
| "matchesSelector RegExp_new node (SObject entries) = matchObjectSelector RegExp_new node entries"
| "matchesSelector RegExp_new node SNull = Inl TypeError"
| "matchesSelector RegExp_new node SOther = Inr False"

text \<open>
  \<open>_searchElements\<close> pushes onto the array \<open>results\<close> that it passes down to the calls for
  the children; the array is threaded through here.
\<close>

fun searchElements :: "regexp_ctor \<Rightarrow> ui_node \<Rightarrow> selector \<Rightarrow> ui_node list \<Rightarrow> js_error + ui_node list"
  and searchChildren :: "regexp_ctor \<Rightarrow> ui_node list \<Rightarrow> selector \<Rightarrow> ui_node list \<Rightarrow> js_error + ui_node list" where
  "searchElements RegExp_new (Node i ps at br sl cs) sel results =
     (case matchesSelector RegExp_new (Node i ps at br sl cs) sel of
        Inl e \<Rightarrow> Inl e
      | Inr b \<Rightarrow> searchChildren RegExp_new cs sel
                   (if b then results @ [Node i ps at br sl cs] else results))"
| "searchChildren RegExp_new [] sel results = Inr results"
| "searchChildren RegExp_new (child # rest) sel results =
     (case searchElements RegExp_new child sel results of
        Inl e \<Rightarrow> Inl e
      | Inr results' \<Rightarrow> searchChildren RegExp_new rest sel results')"

subsection \<open>Path queries\<close>

fun split_on :: "char \<Rightarrow> string \<Rightarrow> string list" where
  "split_on sep [] = [[]]"
| "split_on sep (c # s) =
     (if c = sep then [] # split_on sep s
      else case split_on sep s of
             [] \<Rightarrow> [[c]]
           | p # ps \<Rightarrow> (c # p) # ps)"

fun remove_first :: "char \<Rightarrow> string \<Rightarrow> string" where
  "remove_first x [] = []"
| "remove_first x (c # s) = (if c = x then s else c # remove_first x s)"

definition quoted_value_rx :: "string \<Rightarrow> rx" where
  "quoted_value_rx name =
     seqs [Lit (''@'' @ name @ ''=''), Cls False quote_cls, Grp (Rep True quote_cls 1 None),
           Cls False quote_cls]"

definition all_digits_rx :: rx where
  "all_digits_rx = seqs [Bol, Rep False digit_cls 1 None, Eol]"

text \<open>
  \<open>attribute_predicate\<close> is one of the four \<open>if (predicate.includes(...))\<close> blocks of
  \<open>_evaluatePredicate\<close>: \<open>Some b\<close> when the block returns \<open>b\<close>, \<open>None\<close> when control goes on
  to the next block. \<open>parseInt\<close> is applied to a string of digits only.
\<close>

definition attribute_predicate :: "ui_node \<Rightarrow> string \<Rightarrow> string \<Rightarrow> bool option" where
  "attribute_predicate node predicate name =
     (if str_includes predicate (''@'' @ name @ ''='') then
        (case match_rx predicate (quoted_value_rx name) of
           Some (_, _, [v]) \<Rightarrow> Some (node_prop node name = Some v)
         | _ \<Rightarrow> None)
      else None)"

definition parseInt :: "string \<Rightarrow> int" where
  "parseInt s = int (Number_digits s)"

definition evaluatePredicate :: "ui_node \<Rightarrow> string \<Rightarrow> bool" where
  "evaluatePredicate node predicate =
     (case attribute_predicate node predicate ''text'' of
        Some b \<Rightarrow> b
      | None \<Rightarrow>
     (case attribute_predicate node predicate ''resource-id'' of
        Some b \<Rightarrow> b
      | None \<Rightarrow>
     (case attribute_predicate node predicate ''content-desc'' of
        Some b \<Rightarrow> b
      | None \<Rightarrow>
     (case attribute_predicate node predicate ''clickable'' of
        Some b \<Rightarrow> b
      | None \<Rightarrow>
          if test_rx all_digits_rx predicate then
            (let index = parseInt predicate - 1
             in node_prop node ''index'' = Some (String_int index))
          else False))))"

definition matchesXPathElement :: "ui_node \<Rightarrow> string \<Rightarrow> string option \<Rightarrow> bool" where
  "matchesXPathElement node elementName predicate =
     (if elementName \<noteq> ''*'' \<and>
         \<not> (case node_prop node ''class'' of None \<Rightarrow> False | Some c \<Rightarrow> str_includes c elementName)
      then False
      else case predicate of
             None \<Rightarrow> True
           | Some p \<Rightarrow> if p = [] then True else evaluatePredicate node p)"

text \<open>
  \<open>path.split('[')\<close>: the element name is the first part, the predicate the second part
  without its first \<open>]\<close>, or null when there is no second part or it is empty.
\<close>

definition path_parts :: "string \<Rightarrow> string \<times> string option" where
  "path_parts path =
     (case split_on (CHR ''['') path of
        [] \<Rightarrow> ([], None)
      | [elementName] \<Rightarrow> (elementName, None)
      | elementName # p # _ \<Rightarrow>
          (elementName, if p = [] then None else Some (remove_first (CHR '']'') p)))"

fun findByElementName :: "ui_node \<Rightarrow> string \<Rightarrow> string option \<Rightarrow> ui_node list \<Rightarrow> ui_node list"
  and findByElementNameChildren :: "ui_node list \<Rightarrow> string \<Rightarrow> string option \<Rightarrow> ui_node list \<Rightarrow> ui_node list" where
  "findByElementName (Node i ps at br sl cs) elementName predicate results =
     findByElementNameChildren cs elementName predicate
       (if matchesXPathElement (Node i ps at br sl cs) elementName predicate
        then results @ [Node i ps at br sl cs] else results)"
| "findByElementNameChildren [] elementName predicate results = results"
| "findByElementNameChildren (child # rest) elementName predicate results =
     findByElementNameChildren rest elementName predicate
       (findByElementName child elementName predicate results)"

fun getAllElements :: "ui_node \<Rightarrow> ui_node list \<Rightarrow> ui_node list"
  and getAllElementsChildren :: "ui_node list \<Rightarrow> ui_node list \<Rightarrow> ui_node list" where
  "getAllElements (Node i ps at br sl cs) results =
     getAllElementsChildren cs (results @ [Node i ps at br sl cs])"
| "getAllElementsChildren [] results = results"
| "getAllElementsChildren (child # rest) results =
     getAllElementsChildren rest (getAllElements child results)"

definition evaluateDescendantPath :: "ui_node \<Rightarrow> string \<Rightarrow> ui_node list" where
  "evaluateDescendantPath node path =
     (case path_parts path of (elementName, predicate) \<Rightarrow> findByElementName node elementName predicate [])"

definition evaluateChildPath :: "ui_node \<Rightarrow> string \<Rightarrow> ui_node list" where
  "evaluateChildPath node path =
     (case path_parts path of (elementName, predicate) \<Rightarrow>
        filter (\<lambda>child. matchesXPathElement child elementName predicate) (children node))"

definition evaluateXPath :: "ui_node \<Rightarrow> string \<Rightarrow> ui_node list" where
  "evaluateXPath node xpath =
     (if xpath = ''//*'' then getAllElements node []
      else if startsWith xpath ''//'' then evaluateDescendantPath node (drop 2 xpath)
      else if startsWith xpath ''/'' then evaluateChildPath node (drop 1 xpath)
      else [])"

section \<open>The element handle (Element.js)\<close>

text \<open>
  The fields the constructor of \<open>AndroidElement\<close> sets. \<open>this.attributes\<close> is
  \<open>data.attributes || data\<close>: the original attributes of the node, or the node itself.
\<close>

record android_element =
  elemData :: ui_node
  elemId :: int
  elemTag :: string
  className :: string
  resourceId :: string
  elemText :: string
  contentDesc :: string
  elemBounds :: string
  elemIndex :: string
  elemPackage :: string
  isClickable :: bool
  isLongClickable :: bool
  isEnabled :: bool
  isSelected :: bool
  isFocused :: bool
  isFocusable :: bool
  isScrollable :: bool
  isCheckable :: bool
  isChecked :: bool
  isPassword :: bool
  isVisibleToUser :: bool
  elemBoundsRect :: "bounds_rect option"
  elemSelector :: string

definition or_default :: "string option \<Rightarrow> string \<Rightarrow> string" where
  "or_default v d = (case v of None \<Rightarrow> d | Some s \<Rightarrow> if s = [] then d else s)"

definition element_generateSelector :: "string \<Rightarrow> string \<Rightarrow> string \<Rightarrow> string \<Rightarrow> string \<Rightarrow> string" where
  "element_generateSelector cls rid txt desc idx =
     (let selector = cls;
          selector =
            (if rid \<noteq> [] then selector @ ''[@resource-id='' @ [dq] @ rid @ [dq] @ '']''
             else if txt \<noteq> [] then selector @ ''[@text='' @ [dq] @ escape_quotes txt @ [dq] @ '']''
             else if desc \<noteq> [] then selector @ ''[@content-desc='' @ [dq] @ escape_quotes desc @ [dq] @ '']''
             else selector)
      in if idx \<noteq> [] \<and> idx \<noteq> ''0'' then selector @ ''['' @ idx @ '']'' else selector)"

definition new_AndroidElement :: "ui_node \<Rightarrow> android_element" where
  "new_AndroidElement data =
     (let cls = or_default (node_prop data ''class'') (or_default (node_prop data ''tag'') ''android.view.View'');
          rid = or_default (node_prop data ''resource-id'') [];
          txt = or_default (node_prop data ''text'') [];
          desc = or_default (node_prop data ''content-desc'') [];
          bnds = or_default (node_prop data ''bounds'') ''[0,0][0,0]'';
          idx = or_default (node_prop data ''index'') ''0''
      in \<lparr>elemData = data,
          elemId = nid data,
          elemTag = or_default (node_prop data ''tag'') ''node'',
          className = cls,
          resourceId = rid,
          elemText = txt,
          contentDesc = desc,
          elemBounds = bnds,
          elemIndex = idx,
          elemPackage = or_default (node_prop data ''package'') [],
          isClickable = (node_prop data ''clickable'' = Some ''true''),
          isLongClickable = (node_prop data ''long-clickable'' = Some ''true''),
          isEnabled = (node_prop data ''enabled'' \<noteq> Some ''false''),
          isSelected = (node_prop data ''selected'' = Some ''true''),
          isFocused = (node_prop data ''focused'' = Some ''true''),
          isFocusable = (node_prop data ''focusable'' = Some ''true''),
          isScrollable = (node_prop data ''scrollable'' = Some ''true''),
          isCheckable = (node_prop data ''checkable'' = Some ''true''),
          isChecked = (node_prop data ''checked'' = Some ''true''),
          isPassword = (node_prop data ''password'' = Some ''true''),
          isVisibleToUser = (node_prop data ''visible-to-user'' \<noteq> Some ''false''),
          elemBoundsRect = parseBounds bnds,
          elemSelector = (case selector data of
                            None \<Rightarrow> element_generateSelector cls rid txt desc idx
                          | Some s \<Rightarrow> if s = [] then element_generateSelector cls rid txt desc idx else s)\<rparr>)"

text \<open>\<open>this.attributes[key]\<close>.\<close>

definition element_attribute :: "android_element \<Rightarrow> string \<Rightarrow> jsval" where
  "element_attribute el key =
     (case attributes (elemData el) of
        None \<Rightarrow> node_get (elemData el) key
      | Some attrs \<Rightarrow>
          (case map_of attrs key of
             Some v \<Rightarrow> JStr v
           | None \<Rightarrow> inherited key))"


text \<open>One turn of the loop over the entries in \<open>AndroidElement.matches\<close>.\<close>

definition elementMatchesEntry :: "android_element \<Rightarrow> string \<Rightarrow> jsval \<Rightarrow> js_error + bool" where
  "elementMatchesEntry el key val =
     (if key = ''resourceId'' \<or> key = ''id'' then
        Inr (strict_eq (JStr (resourceId el)) val \<or> endsWith (resourceId el) ('':id/'' @ String_js val))
      else if key = ''text'' then
        (case val of
           JRegExp _ test \<Rightarrow> Inr (test (elemText el))
         | _ \<Rightarrow> Inr (strict_eq (JStr (elemText el)) val))
      else if key = ''contains'' \<or> key = ''textContains'' then
        (case val of
           JStr v \<Rightarrow> Inr (str_includes (toLowerCase (elemText el)) (toLowerCase v) \<or>
                          str_includes (toLowerCase (contentDesc el)) (toLowerCase v))
         | _ \<Rightarrow> Inl TypeError)
      else if key = ''className'' \<or> key = ''class'' then
        (case val of
           JRegExp _ test \<Rightarrow> Inr (test (className el))
         | _ \<Rightarrow> Inr (strict_eq (JStr (className el)) val))
      else if key = ''contentDesc'' \<or> key = ''description'' then
        (case val of
           JRegExp _ test \<Rightarrow> Inr (test (contentDesc el))
         | _ \<Rightarrow> Inr (strict_eq (JStr (contentDesc el)) val))
      else if key = ''clickable'' then Inr (isClickable el = Boolean_js val)
      else if key = ''enabled'' then Inr (isEnabled el = Boolean_js val)
      else Inr (strict_eq (element_attribute el key) val))"

fun elementMatchesObject :: "android_element \<Rightarrow> (string \<times> jsval) list \<Rightarrow> js_error + bool" where
  "elementMatchesObject el [] = Inr True"
| "elementMatchesObject el ((key, val) # rest) =
     (case elementMatchesEntry el key val of
        Inl e \<Rightarrow> Inl e
      | Inr False \<Rightarrow> Inr False
      | Inr True \<Rightarrow> elementMatchesObject el rest)"

fun matches :: "android_element \<Rightarrow> selector \<Rightarrow> js_error + bool" where
  "matches el (SString s) =
     (if startsWith s ''#'' then
        (let ident = drop 1 s
         in Inr (resourceId el = ident \<or> endsWith (resourceId el) ('':id/'' @ ident)))
      else if startsWith s ''.'' then Inr (str_includes (className el) (drop 1 s))
      else Inr (elemText el = s \<or> contentDesc el = s))"
| "matches el (SObject entries) = elementMatchesObject el entries"
| "matches el SNull = Inl TypeError"
| "matches el SOther = Inr False"

section \<open>The snapshot cache (AndroidDevice.getUIHierarchy)\<close>

text \<open>
  The device keeps \<open>_uiHierarchy\<close> and \<open>_lastUIUpdate\<close>. Its collaborator
  \<open>adb.getUIHierarchy\<close> always answers a string (it catches its own failures and answers
  a stub dump); \<open>adb_getUIHierarchy k\<close> is the answer to call number \<open>k\<close>, and
  \<open>adb_calls\<close> counts the calls made. \<open>now\<close> is the reading of \<open>Date.now()\<close> on entry.
\<close>

record android_device =
  uiHierarchy :: "ui_node option"
  lastUIUpdate :: int
  adb_calls :: nat

definition new_AndroidDevice :: android_device where
  "new_AndroidDevice = \<lparr>uiHierarchy = None, lastUIUpdate = 0, adb_calls = 0\<rparr>"

definition refresh :: "nat \<Rightarrow> xml_parser \<Rightarrow> (nat \<Rightarrow> string) \<Rightarrow> int \<Rightarrow> android_device
    \<Rightarrow> (js_error + ui_node) \<times> android_device" where
  "refresh stack xml2js adb_getUIHierarchy now dev =
     (let xmlString = adb_getUIHierarchy (adb_calls dev);
          dev = dev\<lparr>adb_calls := Suc (adb_calls dev)\<rparr>
      in case parseUIHierarchy stack xml2js (JStr xmlString) of
           Inl e \<Rightarrow> (Inl e, dev)
         | Inr h \<Rightarrow> (Inr h, dev\<lparr>uiHierarchy := Some h, lastUIUpdate := now\<rparr>))"

definition getUIHierarchy :: "nat \<Rightarrow> xml_parser \<Rightarrow> (nat \<Rightarrow> string) \<Rightarrow> int \<Rightarrow> bool \<Rightarrow> android_device
    \<Rightarrow> (js_error + ui_node) \<times> android_device" where
  "getUIHierarchy stack xml2js adb_getUIHierarchy now forceRefresh dev =
     (case uiHierarchy dev of
        None \<Rightarrow> refresh stack xml2js adb_getUIHierarchy now dev
      | Some cached \<Rightarrow>
          if forceRefresh \<or> now - lastUIUpdate dev > 1000
          then refresh stack xml2js adb_getUIHierarchy now dev
          else (Inr cached, dev))"

subsection \<open>Finding elements\<close>

definition findElements :: "nat \<Rightarrow> xml_parser \<Rightarrow> (nat \<Rightarrow> string) \<Rightarrow> regexp_ctor \<Rightarrow> int \<Rightarrow> android_device
    \<Rightarrow> selector \<Rightarrow> (js_error + android_element list) \<times> android_device" where
  "findElements stack xml2js adb_getUIHierarchy RegExp_new now dev sel =
     (case getUIHierarchy stack xml2js adb_getUIHierarchy now False dev of
        (Inl e, dev') \<Rightarrow> (Inl e, dev')
      | (Inr hierarchy, dev') \<Rightarrow>
          (case searchElements RegExp_new hierarchy sel [] of
             Inl e \<Rightarrow> (Inl e, dev')
           | Inr elements \<Rightarrow> (Inr (map new_AndroidElement elements), dev')))"

definition findElement :: "nat \<Rightarrow> xml_parser \<Rightarrow> (nat \<Rightarrow> string) \<Rightarrow> regexp_ctor \<Rightarrow> int \<Rightarrow> android_device
    \<Rightarrow> selector \<Rightarrow> (js_error + android_element option) \<times> android_device" where
  "findElement stack xml2js adb_getUIHierarchy RegExp_new now dev sel =
     (case findElements stack xml2js adb_getUIHierarchy RegExp_new now dev sel of
        (Inl e, dev') \<Rightarrow> (Inl e, dev')
      | (Inr elements, dev') \<Rightarrow>
          (Inr (case elements of [] \<Rightarrow> None | first # _ \<Rightarrow> Some first), dev'))"

text \<open>The match the engine prefers from a state, for reasoning about a pattern step by step.\<close>

definition first_match :: "rx \<Rightarrow> rx_state \<Rightarrow> rx_state option" where
  "first_match r st = (case rx_m r st of [] \<Rightarrow> None | x # _ \<Rightarrow> Some x)"

section \<open>Concrete inputs\<close>

text \<open>Collaborators that are not called on the paths where they are passed.\<close>

definition deep_stack :: nat where
  "deep_stack = 100"

definition no_parser :: xml_parser where
  "no_parser x = Inl ''not called''"

definition no_adb :: "nat \<Rightarrow> string" where
  "no_adb k = []"

definition no_regexp :: regexp_ctor where
  "no_regexp v = Inl SyntaxError"

text \<open>A layout with the three buttons OK, Cancel, OK.\<close>

definition button_elem :: "string \<Rightarrow> string \<Rightarrow> xml_elem" where
  "button_elem idx txt = Elem ''node'' [(''index'', idx), (''text'', txt), (''class'', ''android.widget.Button'')] []"

definition buttons_tree :: ui_node where
  "buttons_tree = processNode (Elem ''node'' [(''class'', ''android.widget.LinearLayout'')]
     [button_elem ''0'' ''OK'', button_elem ''1'' ''Cancel'', button_elem ''2'' ''OK'']) 0"

definition buttons_device :: android_device where
  "buttons_device = \<lparr>uiHierarchy = Some buttons_tree, lastUIUpdate = 0, adb_calls = 1\<rparr>"

definition clickable_false_node :: ui_node where
  "clickable_false_node = processNode (Elem ''node'' [(''clickable'', ''false'')] []) 0"

definition hello_node :: ui_node where
  "hello_node = processNode (Elem ''node'' [(''text'', ''hello world'')] []) 0"

definition sample_adb :: "nat \<Rightarrow> string" where
  "sample_adb k = sample_text"

definition sample_tree :: ui_node where
  "sample_tree = processNode (Elem ''node'' [(''text'', ''OK'')] [Elem ''node'' [] []]) 0"

definition ok_selector :: selector where
  "ok_selector = SObject [(''text'', JStr ''OK'')]"

definition first_ok :: ui_node where
  "first_ok = processNode (button_elem ''0'' ''OK'') 1"

definition cancel_button :: ui_node where
  "cancel_button = processNode (button_elem ''1'' ''Cancel'') 2"

definition second_ok :: ui_node where
  "second_ok = processNode (button_elem ''2'' ''OK'') 3"

section \<open>The synchronization layer (Page.waitForSelector)\<close>






























section \<open>Verified properties\<close>

subsection \<open>The parser\<close>

lemma parseUIHierarchy_string:
  "parseUIHierarchy stack xml2js (JStr s) =
     Inr (case parseUIHierarchy_try stack xml2js (JStr s) of Inl e \<Rightarrow> fallback_node | Inr node \<Rightarrow> node)"
  by (simp add: parseUIHierarchy_def split: sum.splits)

text \<open>
  C1. For every input string, \<open>parseUIHierarchy\<close> returns a node and raises nothing:
  either the node the \<open>try\<close> block built, or the fallback node, a single node whose
  \<open>text\<close> and \<open>content-desc\<close> carry the failure marker. This holds whatever the XML
  parser answers, so also for a dump without the root tag or cut off inside an element,
  where the parser reports an error or a result without \<open>hierarchy\<close>; the empty string
  is rejected before the parser is called.
\<close>

theorem parseUIHierarchy_never_raises:
  "\<exists>node. parseUIHierarchy stack xml2js (JStr s) = Inr node \<and>
     (parseUIHierarchy_try stack xml2js (JStr s) = Inr node \<or>
      (node = fallback_node \<and> preorder node = [node] \<and>
       node_prop node ''text'' = Some ''UI Parsing Failed - Please refresh'' \<and>
       node_prop node ''content-desc'' = Some ''UI hierarchy could not be parsed''))"
  by (cases "parseUIHierarchy_try stack xml2js (JStr s)")
     (simp_all add: parseUIHierarchy_def fallback_node_def node_prop_def)

lemma parseUIHierarchy_empty: "parseUIHierarchy stack xml2js (JStr []) = Inr fallback_node"
  by (simp add: parseUIHierarchy_def parseUIHierarchy_try_def cleanXMLString_def)

lemma parseUIHierarchy_syntax_error:
  "cleanXMLString (JStr s) = Inr c \<Longrightarrow> xml2js c = Inl msg \<Longrightarrow>
     parseUIHierarchy stack xml2js (JStr s) = Inr fallback_node"
  by (simp add: parseUIHierarchy_def parseUIHierarchy_try_def)

lemma parseUIHierarchy_missing_root:
  "cleanXMLString (JStr s) = Inr c \<Longrightarrow> xml2js c = Inr (Some root) \<Longrightarrow> xname root \<noteq> ''hierarchy'' \<Longrightarrow>
     parseUIHierarchy stack xml2js (JStr s) = Inr fallback_node"
  by (simp add: parseUIHierarchy_def parseUIHierarchy_try_def tree_of_result_def)

lemma parseUIHierarchy_not_a_string:
  "parseUIHierarchy stack xml2js JUndefined = Inl TypeError"
  by (simp add: parseUIHierarchy_def parseUIHierarchy_try_def cleanXMLString_def)

lemma all_node_elems_name: "all_node_elems e \<Longrightarrow> xname e = ''node''"
  by (cases e) simp

lemma processNode_fields: "fields_nonempty_verbatim e (processNode e i)"
  by (cases e)
     (simp add: fields_nonempty_verbatim_def attribute_defaults_def node_props_def node_prop_def
        attr_or_def Let_def split: option.splits)

lemma processNode_preorder:
  "all_node_elems e \<Longrightarrow>
     list_all2 fields_nonempty_verbatim (xml_preorder e) (preorder (processNode e i))"
  "list_all all_node_elems es \<Longrightarrow>
     list_all2 fields_nonempty_verbatim (concat (map xml_preorder es))
       (concat (map preorder (processChildren es c)))"
proof (induction e i and es c rule: processNode_processChildren.induct)
  case (1 name attrs kids ident)
  have "fields_nonempty_verbatim (Elem name attrs kids) (processNode (Elem name attrs kids) ident)"
    by (rule processNode_fields)
  with 1 show ?case by (simp add: Let_def)
next
  case (2 childId)
  show ?case by simp
next
  case (3 child rest childId)
  then show ?case
    by (auto simp: all_node_elems_name intro: list_all2_appendI)
qed

lemma processNode_depth:
  "all_node_elems e \<Longrightarrow> node_depth (processNode e i) = xml_depth e"
  "list_all all_node_elems es \<Longrightarrow>
     foldr max (map node_depth (processChildren es c)) 0 = foldr max (map xml_depth es) 0"
proof (induction e i and es c rule: processNode_processChildren.induct)
  case (1 name attrs kids ident)
  then show ?case by (simp add: Let_def)
next
  case (2 childId)
  show ?case by simp
next
  case (3 child rest childId)
  then show ?case by (simp add: all_node_elems_name)
qed

text \<open>
  C4, as the code has it. For a well-formed dump whose root node has \<open>N\<close> elements and is
  nested no deeper than the stack holds calls of \<open>processNode\<close>, the parse returns a tree
  with exactly \<open>N\<close> nodes, in the same document order, and every attribute field of a
  node is the attribute of its element when that attribute is written with a non-empty
  value, and the default otherwise: an attribute that is absent or empty takes the
  default (\<open>true\<close> for \<open>enabled\<close> and \<open>visible-to-user\<close>, \<open>false\<close> for the other flags).
\<close>

theorem parse_wellformed_dump:
  assumes "wellformed_dump d" and "xkids d = [r]" and "xml_depth r \<le> stack"
    and "cleanXMLString (JStr s) = Inr c" and "xml2js c = Inr (Some d)"
  shows "\<exists>t. parseUIHierarchy stack xml2js (JStr s) = Inr t \<and>
           length (preorder t) = length (xml_preorder r) \<and>
           list_all2 fields_nonempty_verbatim (xml_preorder r) (preorder t)"
proof -
  from assms(1,2) have r: "all_node_elems r" "xname d = ''hierarchy''"
    by (auto simp: wellformed_dump_def)
  have kids: "node_kids d = [r]"
    using r assms(2) by (simp add: node_kids_def all_node_elems_name)
  have fits: "node_depth (processNode r 0) \<le> stack"
    using assms(3) r(1) by (simp add: processNode_depth)
  have parse: "parseUIHierarchy stack xml2js (JStr s) = Inr (processNode r 0)"
    using assms(4,5) r(2) kids fits
    by (simp add: parseUIHierarchy_def parseUIHierarchy_try_def tree_of_result_def)
  have fields: "list_all2 fields_nonempty_verbatim (xml_preorder r) (preorder (processNode r 0))"
    using r(1) by (rule processNode_preorder(1))
  from fields have "length (preorder (processNode r 0)) = length (xml_preorder r)"
    by (simp add: list_all2_lengthD)
  with parse fields show ?thesis by blast
qed

theorem parse_wellformed_dump_witness:
  "wellformed_dump sample_dump \<and> xkids sample_dump = [sample_root] \<and>
   xml_depth sample_root \<le> 2 \<and>
   cleanXMLString (JStr sample_text) = Inr (xml_declaration @ sample_text) \<and>
   stub_parser (xml_declaration @ sample_text) sample_dump (xml_declaration @ sample_text)
     = Inr (Some sample_dump) \<and>
   (\<exists>t. parseUIHierarchy 2 (stub_parser (xml_declaration @ sample_text) sample_dump) (JStr sample_text) = Inr t \<and>
      length (preorder t) = length (xml_preorder sample_root) \<and>
      list_all2 fields_nonempty_verbatim (xml_preorder sample_root) (preorder t))"
proof -
  have wf: "wellformed_dump sample_dump"
    by code_simp
  have root: "xkids sample_dump = [sample_root]"
    by (simp add: sample_dump_def)
  have depth: "xml_depth sample_root \<le> 2"
    by code_simp
  have clean: "cleanXMLString (JStr sample_text) = Inr (xml_declaration @ sample_text)"
    by code_simp
  have parser: "stub_parser (xml_declaration @ sample_text) sample_dump (xml_declaration @ sample_text)
                  = Inr (Some sample_dump)"
    by (simp add: stub_parser_def)
  from wf root depth clean parser
    parse_wellformed_dump [of sample_dump sample_root 2 sample_text "xml_declaration @ sample_text"
      "stub_parser (xml_declaration @ sample_text) sample_dump"]
  show ?thesis
    by blast
qed

text \<open>
  A well-formed dump that is nested deeper than the stack holds ends in the fallback
  node, whatever its number of elements.
\<close>

lemma parse_too_deep:
  assumes "wellformed_dump d" and "xkids d = [r]" and "stack < xml_depth r"
    and "cleanXMLString (JStr s) = Inr c" and "xml2js c = Inr (Some d)"
  shows "parseUIHierarchy stack xml2js (JStr s) = Inr fallback_node"
proof -
  from assms(1,2) have r: "all_node_elems r" "xname d = ''hierarchy''"
    by (auto simp: wellformed_dump_def)
  have kids: "node_kids d = [r]"
    using r assms(2) by (simp add: node_kids_def all_node_elems_name)
  have "\<not> node_depth (processNode r 0) \<le> stack"
    using assms(3) r(1) by (simp add: processNode_depth)
  with assms(4,5) r(2) kids show ?thesis
    by (simp add: parseUIHierarchy_def parseUIHierarchy_try_def tree_of_result_def)
qed

text \<open>
  C4 as stated fails: the fields are not the attributes verbatim when an attribute is
  written with the empty string. The dump \<open><hierarchy><node class=""/></hierarchy>\<close> is
  well formed, its node has the attribute \<open>class\<close> with the empty value, and the parsed
  node has the class \<open>android.view.View\<close>.
\<close>

theorem parse_verbatim_counterexample:
  "wellformed_dump empty_class_dump \<and>
   parseUIHierarchy deep_stack (stub_parser (xml_declaration @ empty_class_text) empty_class_dump)
       (JStr empty_class_text) = Inr (processNode empty_class_node 0) \<and>
   map_of (xattrs empty_class_node) ''class'' = Some [] \<and>
   node_prop (processNode empty_class_node 0) ''class'' = Some ''android.view.View'' \<and>
   \<not> list_all2 fields_verbatim (xml_preorder empty_class_node) (preorder (processNode empty_class_node 0))"
  by code_simp

lemma leaves_nid:
  "map nid (concat (map preorder (processChildren (replicate n leaf_elem) c))) = map (\<lambda>i. c + int i) [0..<n]"
proof (induction n arbitrary: c)
  case 0
  show ?case by simp
next
  case (Suc n)
  have "[0..<Suc n] = 0 # map Suc [0..<n]"
    by (subst upt_rec) (simp add: map_Suc_upt del: upt_Suc)
  then have "map (\<lambda>i. c + int i) [0..<Suc n] = c # map (\<lambda>i. (c + 1) + int i) [0..<n]"
    by simp
  with Suc [of "c + 1"] show ?case
    by (simp add: leaf_elem_def Let_def del: upt_Suc)
qed

text \<open>
  C9. The numbering \<open>id * 1000 + 1, id * 1000 + 2, ...\<close> of the children of a node is
  not free of collisions. In the well-formed dump \<open>wide_dump\<close> the root node has 1001
  children, the first of which has one child: the last child of the root and that
  grandchild both get the id 1001.
\<close>

theorem node_ids_collide:
  "\<exists>d t. wellformed_dump d \<and> tree_of_result (Some d) = Inr t \<and> \<not> distinct (map nid (preorder t))"
proof -
  let ?r = "Elem ''node'' [] (Elem ''node'' [] [leaf_elem] # replicate 1000 leaf_elem)"
  have wf: "wellformed_dump wide_dump"
    by (simp add: wellformed_dump_def wide_dump_def leaf_elem_def list_all_iff)
  have tree: "tree_of_result (Some wide_dump) = Inr (processNode ?r 0)"
    by (simp add: tree_of_result_def wide_dump_def node_kids_def)
  have ids: "map nid (preorder (processNode ?r 0)) = 0 # 1 # 1001 # map (\<lambda>i. 2 + int i) [0..<1000]"
    using leaves_nid [of 1000 2] by (simp add: Let_def leaf_elem_def)
  have "(1001::int) \<in> set (map (\<lambda>i. 2 + int i) [0..<1000])"
    by (simp add: image_iff)
  with ids have "\<not> distinct (map nid (preorder (processNode ?r 0)))"
    by simp
  with wf tree show ?thesis by blast
qed

subsection \<open>The query engine\<close>

text \<open>
  C2. The selector \<open>{resourceId: "x"}\<close> with a string \<open>x\<close> accepts a node exactly when
  the node has a resource id that is \<open>x\<close> or ends with \<open>:id/x\<close>, and the matcher raises
  nothing on it.
\<close>

theorem resourceId_selector:
  "matchObjectSelector RegExp_new node [(''resourceId'', JStr x)] =
     Inr (\<exists>r. node_prop node ''resource-id'' = Some r \<and> (r = x \<or> suffix ('':id/'' @ x) r))"
  by (auto simp: matchObjectEntry_def endsWith_def split: option.splits bool.splits)

lemma searchElements_filter:
  "(\<forall>m\<in>set (preorder n). \<exists>b. matchesSelector rc m sel = Inr b) \<Longrightarrow>
     searchElements rc n sel acc = Inr (acc @ filter (\<lambda>m. matchesSelector rc m sel = Inr True) (preorder n))"
  "(\<forall>m\<in>set (concat (map preorder cs)). \<exists>b. matchesSelector rc m sel = Inr b) \<Longrightarrow>
     searchChildren rc cs sel acc = Inr (acc @ filter (\<lambda>m. matchesSelector rc m sel = Inr True) (concat (map preorder cs)))"
proof (induction rc n sel acc and rc cs sel acc rule: searchElements_searchChildren.induct)
  case (1 rc i ps at br sl cs sel results)
  let ?n = "Node i ps at br sl cs"
  from 1(2) obtain b where b: "matchesSelector rc ?n sel = Inr b" by auto
  from 1(2) have kids: "\<forall>m\<in>set (concat (map preorder cs)). \<exists>b. matchesSelector rc m sel = Inr b"
    by simp
  from 1(1) [OF b kids] b show ?case by simp
next
  case (2 rc sel results)
  show ?case by simp
next
  case (3 rc child rest sel results)
  from 3(3) have c: "\<forall>m\<in>set (preorder child). \<exists>b. matchesSelector rc m sel = Inr b"
    and r: "\<forall>m\<in>set (concat (map preorder rest)). \<exists>b. matchesSelector rc m sel = Inr b"
    by auto
  from 3(1) [OF c] 3(2) [OF _ r] show ?case by simp
qed

lemma text_selector_total: "\<exists>b. matchesSelector rc m (SObject [(''text'', v)]) = Inr b"
  by (cases v) (auto simp: matchObjectEntry_def split: bool.splits)

text \<open>
  An object selector raises on no node when it has no \<open>textMatches\<close> entry and its
  \<open>contains\<close> and \<open>textContains\<close> entries carry strings.
\<close>

lemma matchObjectEntry_total:
  assumes "key \<noteq> ''textMatches''"
    and "key = ''contains'' \<or> key = ''textContains'' \<Longrightarrow> \<exists>s. val = JStr s"
  shows "\<not> isl (matchObjectEntry rc node key val)"
proof (cases "key = ''contains'' \<or> key = ''textContains''")
  case True
  with assms(2) obtain s where "val = JStr s" by blast
  with True show ?thesis
    by (auto simp: matchObjectEntry_def Let_def)
next
  case False
  with assms(1) show ?thesis
    by (cases val) (simp_all add: matchObjectEntry_def)
qed

lemma matchObjectSelector_total:
  assumes "\<forall>(key, val)\<in>set entries. key \<noteq> ''textMatches'' \<and>
             (key = ''contains'' \<or> key = ''textContains'' \<longrightarrow> (\<exists>s. val = JStr s))"
  shows "\<exists>b. matchesSelector rc node (SObject entries) = Inr b"
  using assms
proof (induction entries)
  case Nil
  show ?case by (simp add: exI [of _ True])
next
  case (Cons entry entries)
  obtain key val where entry: "entry = (key, val)" by (cases entry)
  with Cons.prems have "\<not> isl (matchObjectEntry rc node key val)"
    using matchObjectEntry_total [of key val rc node] by auto
  then obtain b where b: "matchObjectEntry rc node key val = Inr b"
    by (cases "matchObjectEntry rc node key val") auto
  from Cons have "\<exists>b. matchesSelector rc node (SObject entries) = Inr b" by simp
  with entry b show ?case by (cases b) auto
qed

text \<open>
  C3. When the device answers the hierarchy \<open>h\<close> and the selector raises on no node of
  it, \<open>findElements\<close> returns the handles of the nodes the selector accepts, in the
  pre-order of \<open>h\<close> (a node before its children, children in document order), and
  \<open>findElement\<close> returns the handle of the first of them, or null when there is none.
\<close>

theorem find_in_preorder:
  assumes "getUIHierarchy stack xml2js adb now False dev = (Inr h, dev')"
    and "\<forall>m\<in>set (preorder h). \<exists>b. matchesSelector RegExp_new m sel = Inr b"
  shows "findElements stack xml2js adb RegExp_new now dev sel =
           (Inr (map new_AndroidElement
                  (filter (\<lambda>m. matchesSelector RegExp_new m sel = Inr True) (preorder h))), dev') \<and>
         findElement stack xml2js adb RegExp_new now dev sel =
           (Inr (case filter (\<lambda>m. matchesSelector RegExp_new m sel = Inr True) (preorder h) of
                   [] \<Rightarrow> None
                 | first # _ \<Rightarrow> Some (new_AndroidElement first)), dev')"
proof -
  have "searchElements RegExp_new h sel [] =
          Inr (filter (\<lambda>m. matchesSelector RegExp_new m sel = Inr True) (preorder h))"
    using searchElements_filter(1) [OF assms(2), of "[]"] by simp
  with assms(1) have all: "findElements stack xml2js adb RegExp_new now dev sel =
           (Inr (map new_AndroidElement
                  (filter (\<lambda>m. matchesSelector RegExp_new m sel = Inr True) (preorder h))), dev')"
    by (simp add: findElements_def)
  then have "findElement stack xml2js adb RegExp_new now dev sel =
           (Inr (case filter (\<lambda>m. matchesSelector RegExp_new m sel = Inr True) (preorder h) of
                   [] \<Rightarrow> None
                 | first # _ \<Rightarrow> Some (new_AndroidElement first)), dev')"
    by (simp add: findElement_def split: list.splits)
  with all show ?thesis by simp
qed

theorem find_in_preorder_witness:
  "getUIHierarchy deep_stack no_parser no_adb 500 False buttons_device = (Inr buttons_tree, buttons_device) \<and>
   preorder buttons_tree = [buttons_tree, first_ok, cancel_button, second_ok] \<and>
   matchesSelector no_regexp buttons_tree ok_selector = Inr False \<and>
   matchesSelector no_regexp first_ok ok_selector = Inr True \<and>
   matchesSelector no_regexp cancel_button ok_selector = Inr False \<and>
   matchesSelector no_regexp second_ok ok_selector = Inr True \<and>
   findElements deep_stack no_parser no_adb no_regexp 500 buttons_device ok_selector =
     (Inr [new_AndroidElement first_ok, new_AndroidElement second_ok], buttons_device) \<and>
   findElement deep_stack no_parser no_adb no_regexp 500 buttons_device ok_selector =
     (Inr (Some (new_AndroidElement first_ok)), buttons_device)"
proof -
  have cached: "getUIHierarchy deep_stack no_parser no_adb 500 False buttons_device = (Inr buttons_tree, buttons_device)"
    by (simp add: getUIHierarchy_def buttons_device_def)
  have nodes: "preorder buttons_tree = [buttons_tree, first_ok, cancel_button, second_ok]"
    by code_simp
  have each: "matchesSelector no_regexp buttons_tree ok_selector = Inr False"
    "matchesSelector no_regexp first_ok ok_selector = Inr True"
    "matchesSelector no_regexp cancel_button ok_selector = Inr False"
    "matchesSelector no_regexp second_ok ok_selector = Inr True"
    by code_simp+
  have total: "\<forall>m\<in>set (preorder buttons_tree). \<exists>b. matchesSelector no_regexp m ok_selector = Inr b"
    unfolding nodes using each by auto
  from find_in_preorder [OF cached total] cached nodes each show ?thesis
    by simp
qed

lemma first_match_Seq:
  "first_match a st = Some x \<Longrightarrow> first_match b x = Some y \<Longrightarrow> first_match (Seq a b) st = Some y"
  by (auto simp: first_match_def split: list.splits)

lemma first_match_Lit:
  "prefix l s \<Longrightarrow> first_match (Lit l) (i, s, caps) = Some (i + length l, drop (length l) s, caps)"
  by (simp add: first_match_def)

lemma first_match_Rep:
  assumes "takeWhile (in_class neg rs) s = run" and "lo \<le> k"
    and "k = (case hi of None \<Rightarrow> length run | Some h \<Rightarrow> min h (length run))"
  shows "first_match (Rep neg rs lo hi) (i, s, caps) = Some (i + k, drop k s, caps)"
proof -
  from assms(2) have "rev [lo..<Suc k] = k # rev [lo..<k]"
    by simp
  with assms(1,3) show ?thesis
    by (simp add: first_match_def Let_def del: upt_Suc)
qed

lemma first_match_Grp:
  "first_match r (i, s, caps) = Some (j, t, caps') \<Longrightarrow>
     first_match (Grp r) (i, s, caps) = Some (j, t, caps' @ [take (j - i) s])"
  by (auto simp: first_match_def split: list.splits)

lemma rx_at_first_match:
  "first_match r (i, s, []) = Some (j, t, caps) \<Longrightarrow> rx_at r i s = Some (j, caps)"
  by (auto simp: first_match_def rx_at_def split: list.splits)

lemma takeWhile_stop:
  "\<forall>c\<in>set xs. P c \<Longrightarrow> \<not> P y \<Longrightarrow> takeWhile P (xs @ y # ys) = xs"
  by (induction xs) auto

lemma single_range: "((of_char d :: nat) \<le> of_char c \<and> (of_char c :: nat) \<le> of_char d) = (c = d)"
proof
  assume "(of_char d :: nat) \<le> of_char c \<and> (of_char c :: nat) \<le> of_char d"
  then have "(of_char c :: nat) \<le> of_char d" and "(of_char d :: nat) \<le> of_char c"
    by simp_all
  then have "(of_char c :: nat) = of_char d" by (rule le_antisym)
  then show "c = d" by (rule of_char_eqI)
qed simp

lemma in_class_singles: "in_class neg (map (\<lambda>d. (d, d)) ds) c = ((c \<in> set ds) \<noteq> neg)"
  unfolding in_class_def list_ex_iff by (auto simp: single_range)

lemma attr_eq_rx_shadows:
  assumes attr: "CHR ''='' \<notin> set attr"
    and v: "v \<noteq> []" "\<forall>c\<in>set v. c \<noteq> dq \<and> c \<noteq> sq \<and> c \<noteq> CHR '']''"
  shows "match_rx (''['' @ attr @ ''*='' @ v @ '']'') attr_eq_rx =
           Some (0, length attr + length v + 4, [attr @ ''*'', v])"
proof -
  let ?name = "Rep True [(CHR ''='', CHR ''='')] 1 None"
  let ?quote = "Rep False quote_cls 0 (Some 1)"
  let ?val = "Rep True [(dq, dq), (sq, sq), (CHR '']'', CHR '']'')] 1 None"
  let ?s1 = "attr @ ''*='' @ v @ '']''"
  let ?n = "length attr"
  let ?m = "length v"
  have not_eq: "in_class True [(CHR ''='', CHR ''='')] c = (c \<noteq> CHR ''='')" for c
    using in_class_singles [of True "[CHR ''='']" c] by simp
  have not_quote: "in_class True [(dq, dq), (sq, sq), (CHR '']'', CHR '']'')] c =
       (c \<noteq> dq \<and> c \<noteq> sq \<and> c \<noteq> CHR '']'')" for c
    using in_class_singles [of True "[dq, sq, CHR '']'']" c] by simp
  have quote: "in_class False quote_cls c = (c = dq \<or> c = sq)" for c
    using in_class_singles [of False "[dq, sq]" c] by (simp add: quote_cls_def)
  have open_bracket: "first_match (Lit ''['') (0, ''['' @ ?s1, []) = Some (1, ?s1, [])"
    using first_match_Lit [of "''[''" "''['' @ ?s1" 0 "[]"] by simp
  have "takeWhile (in_class True [(CHR ''='', CHR ''='')]) ((attr @ ''*'') @ CHR ''='' # v @ '']'') = attr @ ''*''"
    using attr by (intro takeWhile_stop) (auto simp: not_eq)
  then have "first_match ?name (1, ?s1, []) = Some (1 + (?n + 1), drop (?n + 1) ?s1, [])"
    by (intro first_match_Rep [where run = "attr @ ''*''"]) simp_all
  then have name: "first_match (Grp ?name) (1, ?s1, []) = Some (?n + 2, ''='' @ v @ '']'', [attr @ ''*''])"
    using first_match_Grp [of ?name 1 ?s1 "[]" "1 + (?n + 1)" "drop (?n + 1) ?s1" "[]"] by simp
  have equals: "first_match (Lit ''='') (?n + 2, ''='' @ v @ '']'', [attr @ ''*'']) =
                  Some (?n + 3, v @ '']'', [attr @ ''*''])"
    using first_match_Lit [of "''=''" "''='' @ v @ '']''" "?n + 2" "[attr @ ''*'']"] by simp
  from v obtain c w where cw: "v = c # w" "c \<noteq> dq" "c \<noteq> sq"
    by (cases v) auto
  then have "takeWhile (in_class False quote_cls) (v @ '']'') = []"
    by (simp add: quote)
  then have quote1: "first_match ?quote (?n + 3, v @ '']'', [attr @ ''*'']) = Some (?n + 3, v @ '']'', [attr @ ''*''])"
    using first_match_Rep [of False quote_cls "v @ '']''" "[]" 0 0 "Some 1" "?n + 3" "[attr @ ''*'']"] by simp
  have "takeWhile (in_class True [(dq, dq), (sq, sq), (CHR '']'', CHR '']'')]) (v @ CHR '']'' # []) = v"
    using v(2) by (intro takeWhile_stop) (auto simp: not_quote)
  then have "first_match ?val (?n + 3, v @ '']'', [attr @ ''*'']) = Some (?n + 3 + ?m, drop ?m (v @ '']''), [attr @ ''*''])"
    using v(1) by (intro first_match_Rep [where run = v]) (simp_all add: Suc_le_eq)
  then have val: "first_match (Grp ?val) (?n + 3, v @ '']'', [attr @ ''*'']) =
                    Some (?n + 3 + ?m, '']'', [attr @ ''*'', v])"
    using first_match_Grp [of ?val "?n + 3" "v @ '']''" "[attr @ ''*'']" "?n + 3 + ?m" "drop ?m (v @ '']'')" "[attr @ ''*'']"]
    by simp
  have "takeWhile (in_class False quote_cls) '']'' = []"
    by (simp add: quote dq_def sq_def)
  then have quote2: "first_match ?quote (?n + 3 + ?m, '']'', [attr @ ''*'', v]) = Some (?n + 3 + ?m, '']'', [attr @ ''*'', v])"
    using first_match_Rep [of False quote_cls "'']''" "[]" 0 0 "Some 1" "?n + 3 + ?m" "[attr @ ''*'', v]"] by simp
  have close_bracket: "first_match (Lit '']'') (?n + 3 + ?m, '']'', [attr @ ''*'', v]) = Some (?n + 4 + ?m, [], [attr @ ''*'', v])"
    using first_match_Lit [of "'']''" "'']''" "?n + 3 + ?m" "[attr @ ''*'', v]"] by simp
  have "first_match attr_eq_rx (0, ''['' @ ?s1, []) = Some (?n + 4 + ?m, [], [attr @ ''*'', v])"
    unfolding attr_eq_rx_def seqs.simps
    by (intro first_match_Seq [OF open_bracket] first_match_Seq [OF name] first_match_Seq [OF equals]
          first_match_Seq [OF quote1] first_match_Seq [OF val] first_match_Seq [OF quote2] close_bracket)
  from rx_at_first_match [OF this] show ?thesis
    by (simp add: match_rx_def add.commute add.left_commute)
qed


lemma node_get_starred: "node_get (processNode e i) (attr @ ''*'') = JUndefined"
proof -
  have "k \<noteq> attr @ ''*''" if "last k \<noteq> CHR ''*''" and "k \<noteq> []" for k
    using that by auto
  then show ?thesis
    by (cases e) (simp add: node_get_def node_props_def inherited_def object_prototype_keys_def Let_def)
qed

text \<open>
  The exact form shadows the substring form for every attribute name without \<open>=\<close> and
  every value without quotes or \<open>]\<close>: on a parsed node \<open>[attr*=value]\<close> is always rejected.
\<close>

lemma attr_contains_never_matches:
  assumes "CHR ''='' \<notin> set attr" and "v \<noteq> []"
    and "\<forall>c\<in>set v. c \<noteq> dq \<and> c \<noteq> sq \<and> c \<noteq> CHR '']''"
  shows "matchStringSelector (processNode e i) (''['' @ attr @ ''*='' @ v @ '']'') = Inr False"
proof -
  have ends: "endsWith (''['' @ attr @ ''*='' @ v @ '']'') '']''"
    unfolding endsWith_def by (rule suffixI [of _ "''['' @ attr @ ''*='' @ v"]) simp
  show ?thesis
    using attr_eq_rx_shadows [OF assms] ends
    by (simp add: matchStringSelector_def startsWith_def node_get_starred)
qed

text \<open>
  C5. The shorthand \<open>[attr*=v]\<close> does not reach the substring test. The pattern of the
  exact form \<open>[attr=value]\<close> is tried first and matches it too, with the attribute name
  \<open>attr*\<close>; the matcher then compares \<open>node["attr*"]\<close>, which no node has, with \<open>v\<close>.
  On the node parsed from \<open><node text="hello world"/>\<close> the selector \<open>[text*=world]\<close>
  is rejected although the text contains \<open>world\<close>.
\<close>

theorem attr_contains_selector_shadowed:
  "node_prop hello_node ''text'' = Some ''hello world'' \<and> str_includes ''hello world'' ''world'' \<and>
   match_rx ''[text*=world]'' attr_eq_rx = Some (0, 13, [''text*'', ''world'']) \<and>
   matchStringSelector hello_node ''[text*=world]'' = Inr False"
  by code_simp

lemma is_digit_digit_char: "d < 10 \<Longrightarrow> is_digit (digit_char d)"
  by (simp add: is_digit_def digit_char_def)

lemma digit_val_digit_char: "d < 10 \<Longrightarrow> digit_val (digit_char d) = d"
  by (simp add: digit_val_def digit_char_def)

lemma digits_of_nat_digits: "c \<in> set (digits_of_nat n) \<Longrightarrow> is_digit c"
proof (induction n rule: digits_of_nat.induct)
  case (1 n)
  show ?case
  proof (cases "n < 10")
    case True
    with "1.prems" show ?thesis
      by (subst (asm) digits_of_nat.simps) (simp add: is_digit_digit_char)
  next
    case False
    with "1.prems" have "c \<in> set (digits_of_nat (n div 10)) \<or> c = digit_char (n mod 10)"
      by (subst (asm) digits_of_nat.simps) auto
    with False "1.IH" show ?thesis
      by (auto simp: is_digit_digit_char)
  qed
qed

lemma digits_of_nat_nonempty: "digits_of_nat n \<noteq> []"
  by (subst digits_of_nat.simps) simp

lemma Number_digits_snoc: "Number_digits (s @ [c]) = 10 * Number_digits s + digit_val c"
  by (simp add: Number_digits_def)

lemma Number_digits_of_nat: "Number_digits (digits_of_nat n) = n"
proof (induction n rule: digits_of_nat.induct)
  case (1 n)
  show ?case
  proof (cases "n < 10")
    case True
    then show ?thesis
      by (subst digits_of_nat.simps) (simp add: Number_digits_def digit_val_digit_char)
  next
    case False
    with "1.IH" show ?thesis
      by (subst digits_of_nat.simps) (simp add: Number_digits_snoc digit_val_digit_char)
  qed
qed

lemma str_includes_hd: "str_includes s sub \<Longrightarrow> sub \<noteq> [] \<Longrightarrow> hd sub \<in> set s"
  by (induction s) (auto simp: prefix_Cons neq_Nil_conv)

lemma digits_no_at: "(\<forall>c\<in>set p. is_digit c) \<Longrightarrow> \<not> str_includes p (CHR ''@'' # rest)"
proof
  assume d: "\<forall>c\<in>set p. is_digit c" and "str_includes p (CHR ''@'' # rest)"
  then have "CHR ''@'' \<in> set p" using str_includes_hd [of p "CHR ''@'' # rest"] by simp
  with d have "is_digit CHR ''@''" by blast
  then show False by (simp add: is_digit_def)
qed

lemma attribute_predicate_digits:
  "(\<forall>c\<in>set p. is_digit c) \<Longrightarrow> attribute_predicate node p name = None"
  by (simp add: attribute_predicate_def digits_no_at)

lemma in_class_digit: "in_class False digit_cls c = is_digit c"
  by (simp add: in_class_def digit_cls_def is_digit_def)

lemma all_digits_test:
  assumes "p \<noteq> []" and "\<forall>c\<in>set p. is_digit c"
  shows "test_rx all_digits_rx p"
proof -
  have run: "takeWhile (in_class False digit_cls) p = p"
    using assms(2) by (simp add: in_class_digit [abs_def])
  from assms(1) obtain k where k: "length p = Suc k" by (cases p) auto
  have "(length p, [], []) \<in> set (rx_m all_digits_rx (0, p, []))"
    using k by (simp add: all_digits_rx_def run Let_def del: upt_Suc) (rule exI [of _ "Suc k"], simp)
  then have "rx_m all_digits_rx (0, p, []) \<noteq> []"
    by auto
  then have "rx_at all_digits_rx 0 p \<noteq> None"
    by (auto simp: rx_at_def split: list.splits)
  with assms(1) show ?thesis
    by (cases p) (auto simp: test_rx_def match_rx_def split: option.splits)
qed

text \<open>
  C6. A bracketed predicate that is the bare positive integer \<open>n\<close> accepts a node exactly
  when the \<open>index\<close> of the node is the string of \<open>n - 1\<close>: the query counts from one, the
  stored index from zero. The statement is for \<open>n\<close> up to \<open>2 ^ 53\<close>, where a JavaScript
  number holds \<open>n\<close> and \<open>n - 1\<close> exactly, as the integers of the model do.
\<close>

theorem index_predicate:
  assumes "0 < n" and "n \<le> 2 ^ 53"
  shows "evaluatePredicate node (String_int (int n)) =
           (node_prop node ''index'' = Some (String_int (int n - 1)))"
proof -
  have digits: "\<forall>c\<in>set (digits_of_nat n). is_digit c"
    by (simp add: digits_of_nat_digits)
  have "evaluatePredicate node (digits_of_nat n) =
          (node_prop node ''index'' = Some (String_int (int n - 1)))"
    by (simp add: evaluatePredicate_def attribute_predicate_digits [OF digits]
          all_digits_test [OF digits_of_nat_nonempty digits] parseInt_def Number_digits_of_nat)
  then show ?thesis by (simp add: String_int_def)
qed

theorem index_predicate_witness:
  "(0::nat) < 3 \<and> (3::nat) \<le> 2 ^ 53 \<and> String_int (int 3) = ''3'' \<and> String_int (int 3 - 1) = ''2'' \<and>
   node_prop (processNode (button_elem ''2'' ''OK'') 3) ''index'' = Some ''2'' \<and>
   evaluatePredicate (processNode (button_elem ''2'' ''OK'') 3) ''3''"
proof -
  have s3: "String_int (int 3) = ''3''" and s2: "String_int (int 3 - 1) = ''2''"
    by code_simp+
  have idx: "node_prop (processNode (button_elem ''2'' ''OK'') 3) ''index'' = Some ''2''"
    by code_simp
  have "(0::nat) < 3" and "(3::nat) \<le> 2 ^ 53" by simp_all
  from index_predicate [OF this, of "processNode (button_elem ''2'' ''OK'') 3"] s3 s2 idx
  show ?thesis by simp
qed

subsection \<open>The snapshot cache\<close>

text \<open>
  C7. \<open>getUIHierarchy(forceRefresh)\<close>: when nothing is cached, \<open>forceRefresh\<close> is set, or
  more than 1000 ms have passed since the last update, it calls the capture once, parses
  the answer, stores the parsed tree with the time of the call and returns it; otherwise
  it returns the cached tree, calls no capture and leaves the device as it was.
\<close>

theorem getUIHierarchy_cache:
  "(uiHierarchy dev = None \<or> forceRefresh \<or> now - lastUIUpdate dev > 1000 \<longrightarrow>
      (\<exists>h. parseUIHierarchy stack xml2js (JStr (adb (adb_calls dev))) = Inr h \<and>
           getUIHierarchy stack xml2js adb now forceRefresh dev =
             (Inr h, \<lparr>uiHierarchy = Some h, lastUIUpdate = now, adb_calls = Suc (adb_calls dev)\<rparr>))) \<and>
   (\<not> (uiHierarchy dev = None \<or> forceRefresh \<or> now - lastUIUpdate dev > 1000) \<longrightarrow>
      (\<exists>cached. uiHierarchy dev = Some cached \<and>
           getUIHierarchy stack xml2js adb now forceRefresh dev = (Inr cached, dev)))"
proof -
  obtain h where h: "parseUIHierarchy stack xml2js (JStr (adb (adb_calls dev))) = Inr h"
    using parseUIHierarchy_string by blast
  then show ?thesis
    by (cases "uiHierarchy dev") (simp_all add: getUIHierarchy_def refresh_def Let_def)
qed

theorem getUIHierarchy_cache_witness:
  "(uiHierarchy new_AndroidDevice = None \<or> False \<or> 5000 - lastUIUpdate new_AndroidDevice > 1000) \<and>
   getUIHierarchy deep_stack (stub_parser (xml_declaration @ sample_text) sample_dump) sample_adb 5000 False
       new_AndroidDevice =
     (Inr sample_tree, \<lparr>uiHierarchy = Some sample_tree, lastUIUpdate = 5000, adb_calls = 1\<rparr>) \<and>
   \<not> (uiHierarchy buttons_device = None \<or> False \<or> 500 - lastUIUpdate buttons_device > 1000) \<and>
   getUIHierarchy deep_stack no_parser no_adb 500 False buttons_device = (Inr buttons_tree, buttons_device)"
proof -
  have stale: "uiHierarchy new_AndroidDevice = None \<or> False \<or> 5000 - lastUIUpdate new_AndroidDevice > 1000"
    by (simp add: new_AndroidDevice_def)
  have calls: "adb_calls new_AndroidDevice = 0"
    by (simp add: new_AndroidDevice_def)
  have parsed: "parseUIHierarchy deep_stack (stub_parser (xml_declaration @ sample_text) sample_dump)
                  (JStr (sample_adb 0)) = Inr sample_tree"
    by code_simp
  have fresh: "\<not> (uiHierarchy buttons_device = None \<or> False \<or> 500 - lastUIUpdate buttons_device > 1000)"
    by (simp add: buttons_device_def)
  have cached: "uiHierarchy buttons_device = Some buttons_tree"
    by (simp add: buttons_device_def)
  from getUIHierarchy_cache [where dev = new_AndroidDevice and forceRefresh = False and now = 5000
         and stack = deep_stack and xml2js = "stub_parser (xml_declaration @ sample_text) sample_dump"
         and adb = sample_adb]
       getUIHierarchy_cache [where dev = buttons_device and forceRefresh = False and now = 500
         and stack = deep_stack and xml2js = no_parser and adb = no_adb]
       stale calls parsed fresh cached
  show ?thesis by auto
qed

subsection \<open>The element handle against the query engine\<close>

lemma isClickable_new: "isClickable (new_AndroidElement node) = (node_prop node ''clickable'' = Some ''true'')"
  by (simp add: new_AndroidElement_def Let_def)

lemma isEnabled_new: "isEnabled (new_AndroidElement node) = (node_prop node ''enabled'' \<noteq> Some ''false'')"
  by (simp add: new_AndroidElement_def Let_def)

lemma selector_flag:
  "matchObjectSelector RegExp_new node [(''clickable'', val)] =
     Inr (node_prop node ''clickable'' = Some (String_js val))"
  "matchObjectSelector RegExp_new node [(''enabled'', val)] =
     Inr (node_prop node ''enabled'' = Some (String_js val))"
  by (simp_all add: matchObjectEntry_def flag_keys_def split: bool.splits)

lemma element_flag:
  "matches (new_AndroidElement node) (SObject [(''clickable'', val)]) =
     Inr ((node_prop node ''clickable'' = Some ''true'') = truthy val)"
  "matches (new_AndroidElement node) (SObject [(''enabled'', val)]) =
     Inr ((node_prop node ''enabled'' \<noteq> Some ''false'') = truthy val)"
  by (simp_all add: elementMatchesEntry_def isClickable_new isEnabled_new split: bool.splits)

text \<open>
  With a boolean value, on a node whose flag is \<open>true\<close> or \<open>false\<close>, the two matchers
  agree on \<open>clickable\<close> and on \<open>enabled\<close>.
\<close>

lemma flag_boolean_agree:
  assumes "key = ''clickable'' \<or> key = ''enabled''"
    and "node_prop node key = Some ''true'' \<or> node_prop node key = Some ''false''"
  shows "matchObjectSelector RegExp_new node [(key, JBool b)] =
         matches (new_AndroidElement node) (SObject [(key, JBool b)])"
  using assms(1)
proof
  assume k: "key = ''clickable''"
  with assms(2) show ?thesis
    unfolding k by (cases b) (simp_all only: selector_flag element_flag, auto)
next
  assume k: "key = ''enabled''"
  with assms(2) show ?thesis
    unfolding k by (cases b) (simp_all only: selector_flag element_flag, auto)
qed

text \<open>
  C10. The two matchers do not agree on a flag given as a string. For the node parsed
  from \<open><node clickable="false"/>\<close> and the selector \<open>{clickable: "false"}\<close> the query
  engine accepts (\<open>String("false")\<close> is the flag of the node) and the element handle
  rejects (\<open>Boolean("false")\<close> is true, the parsed flag is false).
\<close>

theorem flag_string_false_diverges:
  "node_prop clickable_false_node ''clickable'' = Some ''false'' \<and>
   matchObjectSelector no_regexp clickable_false_node [(''clickable'', JStr ''false'')] = Inr True \<and>
   matches (new_AndroidElement clickable_false_node) (SObject [(''clickable'', JStr ''false'')]) = Inr False"
proof -
  have flag: "node_prop clickable_false_node ''clickable'' = Some ''false''"
    by code_simp
  then show ?thesis
    by (simp only: selector_flag element_flag) simp
qed

subsection \<open>The synchronization layer\<close>














end
